theory Spec2Isabelle
  imports Main "HOL-Library.Sublist" "HOL-Library.Word" "HOL-Library.Monad_Syntax"
begin

unbundle bit_operations_syntax

section \<open>Values of the Python runtime\<close>

text \<open>
  The program is the single file \<^verbatim>\<open>d.py\<close>: two functions that query web services
  (\<^verbatim>\<open>get_free_dictionary_definition\<close>, \<^verbatim>\<open>get_llm_definition\<close>) and the class
  \<^verbatim>\<open>DictionaryApp\<close> that writes their results into a Tk text widget.

  A decoded JSON document is a value of \<open>json\<close>. A Python \<^verbatim>\<open>str\<close> is a \<open>string\<close>;
  its characters are the code points below 256. A Python \<^verbatim>\<open>float\<close> is kept as its IEEE 754
  bit pattern, of which the program only ever asks whether it is zero. A \<^verbatim>\<open>dict\<close> is
  the list of its items in insertion order, looked up with \<open>map_of\<close>.
\<close>

datatype json =
    JNull
  | JBool bool
  | JInt int
  | JFloat "64 word"
  | JStr string
  | JList "json list"
  | JDict "(string \<times> json) list"

text \<open>
  The outcome of \<^verbatim>\<open>Response.json()\<close>: the decoded document; the message of the decoder
  when the body is not JSON; or the message of another exception that the decoder lets
  through (\<^verbatim>\<open>RecursionError\<close> for a body nested too deeply, \<^verbatim>\<open>ValueError\<close> for an integer of
  more digits than the runtime converts).
\<close>

datatype json_outcome = Decoded json | DecodeError string | DecoderRaised string

record response =
  status_code :: nat
  reason :: string
  url :: string
  body_text :: string
  json_result :: json_outcome

text \<open>
  The exceptions the program can meet, each with the text \<^verbatim>\<open>str(e)\<close> gives. All of them
  derive from \<^verbatim>\<open>Exception\<close>.
  \<^item> \<open>HTTPError\<close> carries the response, as \<^verbatim>\<open>raise_for_status\<close> builds it.
  \<^item> \<open>RequestsJSONDecodeError\<close> is \<^verbatim>\<open>requests.exceptions.JSONDecodeError\<close>, the class that
    \<^verbatim>\<open>Response.json()\<close> raises (requests 2.27 and later). The library declares it as
    \<^verbatim>\<open>class JSONDecodeError(InvalidJSONError, CompatJSONDecodeError)\<close>, with
    \<^verbatim>\<open>class InvalidJSONError(RequestException)\<close>: it is a \<^verbatim>\<open>RequestException\<close> and a
    \<^verbatim>\<open>json.JSONDecodeError\<close> at once.
  \<^item> \<open>JSONDecodeError\<close> is a plain \<^verbatim>\<open>json.JSONDecodeError\<close>.
  \<^item> \<open>RequestException\<close> is any other exception of the requests library (connection,
    timeout, invalid URL, ...).
  \<^item> \<open>OtherException\<close> is any other subclass of \<^verbatim>\<open>Exception\<close>.
\<close>

datatype exn =
    HTTPError string response
  | RequestsJSONDecodeError string
  | RequestException string
  | JSONDecodeError string
  | KeyError string
  | IndexError string
  | TypeError string
  | AttributeError string
  | OtherException string

fun exn_str :: "exn \<Rightarrow> string" where
  "exn_str (HTTPError m r) = m"
| "exn_str (RequestsJSONDecodeError m) = m"
| "exn_str (RequestException m) = m"
| "exn_str (JSONDecodeError m) = m"
| "exn_str (KeyError m) = m"
| "exn_str (IndexError m) = m"
| "exn_str (TypeError m) = m"
| "exn_str (AttributeError m) = m"
| "exn_str (OtherException m) = m"

text \<open>
  The \<^verbatim>\<open>isinstance\<close> tests that the \<^verbatim>\<open>except\<close> clauses of the program make (a clause
  for \<^verbatim>\<open>HTTPError\<close> is an equation for that constructor).
\<close>

fun is_RequestException :: "exn \<Rightarrow> bool" where
  "is_RequestException (HTTPError m r) = True"
| "is_RequestException (RequestsJSONDecodeError m) = True"
| "is_RequestException (RequestException m) = True"
| "is_RequestException e = False"

fun is_JSONDecodeError :: "exn \<Rightarrow> bool" where
  "is_JSONDecodeError (RequestsJSONDecodeError m) = True"
| "is_JSONDecodeError (JSONDecodeError m) = True"
| "is_JSONDecodeError e = False"

fun is_Key_Index_or_TypeError :: "exn \<Rightarrow> bool" where
  "is_Key_Index_or_TypeError (KeyError m) = True"
| "is_Key_Index_or_TypeError (IndexError m) = True"
| "is_Key_Index_or_TypeError (TypeError m) = True"
| "is_Key_Index_or_TypeError e = False"

text \<open>
  A computation that may raise returns \<open>exn + 'a\<close>, \<open>Inl\<close> the exception. \<open>and_then\<close>
  runs the next statement unless the previous one raised.
\<close>

definition and_then :: "exn + 'a \<Rightarrow> ('a \<Rightarrow> exn + 'b) \<Rightarrow> exn + 'b" where
  "and_then m f = (case m of Inl e \<Rightarrow> Inl e | Inr x \<Rightarrow> f x)"

text \<open>
  What the program takes from outside its own text: the replies of the two web services
  (\<^verbatim>\<open>requests.get\<close> and \<^verbatim>\<open>requests.post\<close> return a response or raise), and two
  renderings of the runtime that no property below depends on, \<^verbatim>\<open>str(v)\<close> of a float,
  list or dict, and \<^verbatim>\<open>json.dumps(v, indent=2)\<close>.
\<close>

record world =
  http_get :: "string \<Rightarrow> exn + response"
  http_post :: "string \<Rightarrow> (string \<times> string) list \<Rightarrow> json \<Rightarrow> exn + response"
  py_repr :: "json \<Rightarrow> string"
  json_dumps :: "json \<Rightarrow> string"

subsection \<open>Operations on values\<close>

definition newline :: char where
  "newline = CHR 0x0A"

fun show_nat :: "nat \<Rightarrow> string" where
  "show_nat n =
     (if n < 10 then [''0123456789'' ! n]
      else show_nat (n div 10) @ [''0123456789'' ! (n mod 10)])"

declare show_nat.simps [simp del]

definition show_int :: "int \<Rightarrow> string" where
  "show_int i = (if i < 0 then ''-'' @ show_nat (nat (- i)) else show_nat (nat i))"

text \<open>\<^verbatim>\<open>str(v)\<close>, as an f-string applies it to a field.\<close>

fun py_str :: "world \<Rightarrow> json \<Rightarrow> string" where
  "py_str W (JStr s) = s"
| "py_str W JNull = ''None''"
| "py_str W (JBool b) = (if b then ''True'' else ''False'')"
| "py_str W (JInt i) = show_int i"
| "py_str W v = py_repr W v"

text \<open>\<^verbatim>\<open>bool(v)\<close>: what \<^verbatim>\<open>if v\<close> and \<^verbatim>\<open>v and ...\<close> test.\<close>

fun truthy :: "json \<Rightarrow> bool" where
  "truthy JNull = False"
| "truthy (JBool b) = b"
| "truthy (JInt i) = (i \<noteq> 0)"
| "truthy (JFloat w) = (w AND 0x7FFFFFFFFFFFFFFF \<noteq> 0)"
| "truthy (JStr s) = (s \<noteq> [])"
| "truthy (JList xs) = (xs \<noteq> [])"
| "truthy (JDict kvs) = (kvs \<noteq> [])"

fun type_name :: "json \<Rightarrow> string" where
  "type_name JNull = ''NoneType''"
| "type_name (JBool b) = ''bool''"
| "type_name (JInt i) = ''int''"
| "type_name (JFloat w) = ''float''"
| "type_name (JStr s) = ''str''"
| "type_name (JList xs) = ''list''"
| "type_name (JDict kvs) = ''dict''"

fun isinstance_list :: "json \<Rightarrow> bool" where
  "isinstance_list (JList xs) = True"
| "isinstance_list v = False"

text \<open>A text between single quotes, as the messages of the runtime show names.\<close>

definition quoted :: "string \<Rightarrow> string" where
  "quoted s = [CHR 0x27] @ s @ [CHR 0x27]"

text \<open>\<^verbatim>\<open>v.get(key, default)\<close>: only a dict has the method.\<close>

definition no_attribute_get :: "json \<Rightarrow> exn" where
  "no_attribute_get v =
     AttributeError (quoted (type_name v) @ '' object has no attribute '' @ quoted ''get'')"

fun py_get :: "json \<Rightarrow> string \<Rightarrow> json \<Rightarrow> exn + json" where
  "py_get (JDict kvs) k d = Inr (case map_of kvs k of None \<Rightarrow> d | Some v \<Rightarrow> v)"
| "py_get v k d = Inl (no_attribute_get v)"

text \<open>
  The items a \<^verbatim>\<open>for\<close> loop visits: the elements of a list, the keys of a dict, the
  characters of a string; nothing else can be iterated.
\<close>

fun py_iter :: "json \<Rightarrow> exn + json list" where
  "py_iter (JList xs) = Inr xs"
| "py_iter (JDict kvs) = Inr (map (\<lambda>kv. JStr (fst kv)) kvs)"
| "py_iter (JStr s) = Inr (map (\<lambda>c. JStr [c]) s)"
| "py_iter v = Inl (TypeError (quoted (type_name v) @ '' object is not iterable''))"

text \<open>\<^verbatim>\<open>sep.join(xs)\<close>\<close>

fun str_join :: "string \<Rightarrow> string list \<Rightarrow> string" where
  "str_join sep [] = []"
| "str_join sep [x] = x"
| "str_join sep (x # y # ys) = x @ sep @ str_join sep (y # ys)"

section \<open>The requests library\<close>

text \<open>
  \<^verbatim>\<open>Response.raise_for_status()\<close> raises \<^verbatim>\<open>HTTPError\<close> for a status from 400 to 599, with
  the message the library builds; \<^verbatim>\<open>Response.json()\<close> decodes the body or raises.
\<close>

definition raise_for_status :: "response \<Rightarrow> exn + unit" where
  "raise_for_status r =
     (let http_error_msg =
        (if 400 \<le> status_code r \<and> status_code r < 500
         then show_nat (status_code r) @ '' Client Error: '' @ reason r @ '' for url: '' @ url r
         else if 500 \<le> status_code r \<and> status_code r < 600
         then show_nat (status_code r) @ '' Server Error: '' @ reason r @ '' for url: '' @ url r
         else [])
      in if http_error_msg \<noteq> [] then Inl (HTTPError http_error_msg r) else Inr ())"

definition Response_json :: "response \<Rightarrow> exn + json" where
  "Response_json r =
     (case json_result r of
        Decoded v \<Rightarrow> Inr v
      | DecodeError m \<Rightarrow> Inl (RequestsJSONDecodeError m)
      | DecoderRaised m \<Rightarrow> Inl (OtherException m))"

section \<open>get_free_dictionary_definition\<close>

text \<open>
  Lines 27 to 30: the text of one definition. \<open>definition_text\<close> is the variable
  \<^verbatim>\<open>definition\<close> of the source.
\<close>

definition format_definition :: "world \<Rightarrow> json \<Rightarrow> json \<Rightarrow> exn + string" where
  "format_definition W part_of_speech definition_info =
     and_then (py_get definition_info ''definition'' (JStr ''No definition found.''))
       (\<lambda>definition_text.
     and_then (py_get definition_info ''example'' (JStr []))
       (\<lambda>example.
     let def_str = ''('' @ py_str W part_of_speech @ '') '' @ py_str W definition_text
     in Inr (if truthy example
             then def_str @ [newline] @ ''  - Example: \"'' @ py_str W example @ ''\"''
             else def_str)))"

text \<open>
  The three nested loops of lines 21 to 30, innermost first. Each takes the list
  \<^verbatim>\<open>definitions\<close> built so far and returns it extended; an exception leaves the loops.
\<close>

fun definitions_loop :: "world \<Rightarrow> json \<Rightarrow> json list \<Rightarrow> string list \<Rightarrow> exn + string list" where
  "definitions_loop W part_of_speech [] definitions = Inr definitions"
| "definitions_loop W part_of_speech (definition_info # rest) definitions =
     and_then (format_definition W part_of_speech definition_info)
       (\<lambda>def_str. definitions_loop W part_of_speech rest (definitions @ [def_str]))"

definition meaning_body :: "world \<Rightarrow> json \<Rightarrow> string list \<Rightarrow> exn + string list" where
  "meaning_body W meaning definitions =
     and_then (py_get meaning ''partOfSpeech'' (JStr ''N/A''))
       (\<lambda>part_of_speech.
     and_then (py_get meaning ''definitions'' (JList []))
       (\<lambda>infos.
     and_then (py_iter infos)
       (\<lambda>items. definitions_loop W part_of_speech items definitions)))"

fun meanings_loop :: "world \<Rightarrow> json list \<Rightarrow> string list \<Rightarrow> exn + string list" where
  "meanings_loop W [] definitions = Inr definitions"
| "meanings_loop W (meaning # rest) definitions =
     and_then (meaning_body W meaning definitions) (meanings_loop W rest)"

definition entry_body :: "world \<Rightarrow> json \<Rightarrow> string list \<Rightarrow> exn + string list" where
  "entry_body W entry definitions =
     and_then (py_get entry ''meanings'' (JList []))
       (\<lambda>meanings.
     and_then (py_iter meanings)
       (\<lambda>items. meanings_loop W items definitions))"

fun entries_loop :: "world \<Rightarrow> json list \<Rightarrow> string list \<Rightarrow> exn + string list" where
  "entries_loop W [] definitions = Inr definitions"
| "entries_loop W (entry # rest) definitions =
     and_then (entry_body W entry definitions) (entries_loop W rest)"

definition dictionary_url :: "string \<Rightarrow> string" where
  "dictionary_url word = ''https://api.dictionaryapi.dev/api/v2/entries/en/'' @ word"

definition no_definition_found :: string where
  "no_definition_found = ''No definition found for this word.''"

definition word_not_found :: string where
  "word_not_found = ''Word not found in this dictionary.''"

definition could_not_parse :: string where
  "could_not_parse = ''Could not parse the response from the server.''"

text \<open>Lines 15 to 31, the body of the \<^verbatim>\<open>try\<close>.\<close>

definition dictionary_try :: "world \<Rightarrow> string \<Rightarrow> exn + string" where
  "dictionary_try W word =
     and_then (http_get W (dictionary_url word))
       (\<lambda>response.
     and_then (raise_for_status response)
       (\<lambda>u.
     and_then (Response_json response)
       (\<lambda>data.
     and_then (if isinstance_list data \<and> truthy data
               then and_then (py_iter data) (\<lambda>entries. entries_loop W entries [])
               else Inr [])
       (\<lambda>definitions.
     Inr (if definitions \<noteq> [] then str_join [newline] definitions
          else no_definition_found)))))"

text \<open>
  Lines 32 to 40, the \<^verbatim>\<open>except\<close> clauses in their order: \<^verbatim>\<open>HTTPError\<close>, then
  \<^verbatim>\<open>RequestException\<close>, then \<^verbatim>\<open>json.JSONDecodeError\<close>. An exception that none of them
  names leaves the function.
\<close>

fun dictionary_except :: "exn \<Rightarrow> exn + string" where
  "dictionary_except (HTTPError m r) =
     (if status_code r = 404 then Inr word_not_found
      else Inr (''HTTP error occurred: '' @ exn_str (HTTPError m r)))"
| "dictionary_except e =
     (if is_RequestException e then Inr (''An error occurred: '' @ exn_str e)
      else if is_JSONDecodeError e then Inr could_not_parse
      else Inl e)"

definition get_free_dictionary_definition :: "world \<Rightarrow> string \<Rightarrow> exn + string" where
  "get_free_dictionary_definition W word =
     (case dictionary_try W word of
        Inr s \<Rightarrow> Inr s
      | Inl e \<Rightarrow> dictionary_except e)"

section \<open>get_llm_definition\<close>

text \<open>
  Subscripts, \<^verbatim>\<open>v[key]\<close> and \<^verbatim>\<open>v[i]\<close>, and \<^verbatim>\<open>len(v)\<close>, with the exceptions of the
  runtime.
\<close>

fun py_item_key :: "json \<Rightarrow> string \<Rightarrow> exn + json" where
  "py_item_key (JDict kvs) k =
     (case map_of kvs k of None \<Rightarrow> Inl (KeyError (quoted k)) | Some v \<Rightarrow> Inr v)"
| "py_item_key (JList xs) k = Inl (TypeError ''list indices must be integers or slices, not str'')"
| "py_item_key (JStr s) k = Inl (TypeError (''string indices must be integers, not '' @ quoted ''str''))"
| "py_item_key v k = Inl (TypeError (quoted (type_name v) @ '' object is not subscriptable''))"

fun py_item_idx :: "json \<Rightarrow> nat \<Rightarrow> exn + json" where
  "py_item_idx (JList xs) i =
     (if i < length xs then Inr (xs ! i) else Inl (IndexError ''list index out of range''))"
| "py_item_idx (JStr s) i =
     (if i < length s then Inr (JStr [s ! i]) else Inl (IndexError ''string index out of range''))"
| "py_item_idx (JDict kvs) i = Inl (KeyError (show_nat i))"
| "py_item_idx v i = Inl (TypeError (quoted (type_name v) @ '' object is not subscriptable''))"

fun py_len :: "json \<Rightarrow> exn + nat" where
  "py_len (JList xs) = Inr (length xs)"
| "py_len (JStr s) = Inr (length s)"
| "py_len (JDict kvs) = Inr (length kvs)"
| "py_len v = Inl (TypeError (''object of type '' @ quoted (type_name v) @ '' has no len()''))"

text \<open>
  \<^verbatim>\<open>a and b and ...\<close>: the operands are evaluated from the left, up to the first that is
  false or raises. \<open>test\<close> is the truth value of one operand.
\<close>

fun all_of :: "(exn + bool) list \<Rightarrow> exn + bool" where
  "all_of [] = Inr True"
| "all_of (c # cs) = (case c of Inl e \<Rightarrow> Inl e | Inr b \<Rightarrow> if b then all_of cs else Inr False)"

definition test :: "('a \<Rightarrow> bool) \<Rightarrow> exn + 'a \<Rightarrow> exn + bool" where
  "test f m = and_then m (\<lambda>v. Inr (f v))"

text \<open>The subscript expressions that lines 67 to 76 repeat.\<close>

definition candidates :: "json \<Rightarrow> exn + json" where
  "candidates result = py_item_key result ''candidates''"

definition candidate0 :: "json \<Rightarrow> exn + json" where
  "candidate0 result = and_then (candidates result) (\<lambda>c. py_item_idx c 0)"

definition content0 :: "json \<Rightarrow> exn + json" where
  "content0 result = and_then (candidate0 result) (\<lambda>c. py_item_key c ''content'')"

definition parts0 :: "json \<Rightarrow> exn + json" where
  "parts0 result = and_then (content0 result) (\<lambda>c. py_item_key c ''parts'')"

definition part00 :: "json \<Rightarrow> exn + json" where
  "part00 result = and_then (parts0 result) (\<lambda>ps. py_item_idx ps 0)"

text \<open>The condition of lines 67 to 74, one entry per operand.\<close>

definition has_generated_text :: "json \<Rightarrow> exn + bool" where
  "has_generated_text result = all_of
     [test truthy (py_get result ''candidates'' JNull),
      test isinstance_list (candidates result),
      test (\<lambda>n. 0 < n) (and_then (candidates result) py_len),
      test truthy (and_then (candidate0 result) (\<lambda>c. py_get c ''content'' JNull)),
      test truthy (and_then (content0 result) (\<lambda>c. py_get c ''parts'' JNull)),
      test isinstance_list (parts0 result),
      test (\<lambda>n. 0 < n) (and_then (parts0 result) py_len),
      test truthy (and_then (part00 result) (\<lambda>p. py_get p ''text'' JNull))]"

definition llm_prompt :: "string \<Rightarrow> string" where
  "llm_prompt word =
     ''Provide a clear and concise definition for the word '' @ quoted word
     @ '', followed by an example sentence showing its usage. Don't use markdown syntax.''"

definition api_url :: string where
  "api_url = ''https://generativelanguage.googleapis.com/v1beta/models/gemini-2.5-flash-preview-05-20:generateContent''"

definition api_key :: string where
  "api_key = []"

definition headers :: "(string \<times> string) list" where
  "headers = [(''Content-Type'', ''application/json'')]"

definition payload :: "string \<Rightarrow> json" where
  "payload word =
     JDict [(''contents'', JList [JDict [(''parts'', JList [JDict [(''text'', JStr (llm_prompt word))]])]])]"

definition full_api_url :: string where
  "full_api_url = api_url @ ''?key='' @ api_key"

definition unexpected_format :: "world \<Rightarrow> json \<Rightarrow> string" where
  "unexpected_format W result =
     ''Error: Unexpected API response format.'' @ [newline, newline]
     @ ''Raw response:'' @ [newline] @ json_dumps W result"

text \<open>
  Lines 48 to 81, the body of the \<^verbatim>\<open>try\<close>: the value is the argument that the body
  hands to \<^verbatim>\<open>callback\<close>, the generated text or the message of line 80.
\<close>

definition llm_try :: "world \<Rightarrow> string \<Rightarrow> exn + json" where
  "llm_try W word =
     and_then (http_post W full_api_url headers (payload word))
       (\<lambda>response.
     and_then (raise_for_status response)
       (\<lambda>u.
     and_then (Response_json response)
       (\<lambda>result.
     and_then (has_generated_text result)
       (\<lambda>found.
     if found then and_then (part00 result) (\<lambda>p. py_item_key p ''text'')
     else Inr (JStr (unexpected_format W result))))))"

text \<open>
  Lines 83 to 94, the \<^verbatim>\<open>except\<close> clauses in their order; the last one names
  \<^verbatim>\<open>Exception\<close>. The value is the message handed to \<^verbatim>\<open>callback\<close>.
\<close>

fun llm_except :: "exn \<Rightarrow> exn + json" where
  "llm_except (HTTPError m r) =
     Inr (JStr (''An HTTP error occurred: '' @ exn_str (HTTPError m r) @ [newline]
                @ ''Response: '' @ body_text r))"
| "llm_except e =
     (if is_RequestException e
      then Inr (JStr (''A network error occurred while contacting the LLM: '' @ exn_str e))
      else if is_Key_Index_or_TypeError e
      then Inr (JStr (''Error parsing the LLM response: '' @ exn_str e))
      else Inr (JStr (''An unexpected error occurred: '' @ exn_str e)))"

text \<open>
  The function itself. \<^verbatim>\<open>callback\<close> acts on a state \<open>'s\<close> of the caller and is taken not
  to raise. \<open>Inr\<close> is a normal return, \<open>Inl\<close> an exception that leaves the function.
\<close>

definition get_llm_definition :: "world \<Rightarrow> string \<Rightarrow> (json \<Rightarrow> 's \<Rightarrow> 's) \<Rightarrow> 's \<Rightarrow> exn + 's" where
  "get_llm_definition W word callback s =
     (case llm_try W word of
        Inr v \<Rightarrow> Inr (callback v s)
      | Inl e \<Rightarrow> (case llm_except e of Inr v \<Rightarrow> Inr (callback v s) | Inl e' \<Rightarrow> Inl e'))"

section \<open>The Tk text widget\<close>

text \<open>
  The widget holds \<open>content\<close> followed by a final newline that cannot be deleted. An index
  is \<^verbatim>\<open>line.char\<close> (lines from 1, characters from 0), \<^verbatim>\<open>end\<close> (after the final newline),
  or an index moved down by a number of lines. \<open>tk_offset\<close> is the position an index
  denotes, counted in characters from the start of the text.
\<close>

datatype widget_state = Normal | Disabled

record text_widget =
  content :: string
  state :: widget_state

datatype tk_index = LineChar nat nat | END | PlusLines tk_index nat

text \<open>The position where line \<open>l\<close> (from 0) of the content starts, if there is such a line.\<close>

fun line_offset :: "string \<Rightarrow> nat \<Rightarrow> nat option" where
  "line_offset s 0 = Some 0"
| "line_offset [] (Suc l) = None"
| "line_offset (c # cs) (Suc l) =
     map_option Suc (if c = newline then line_offset cs l else line_offset cs (Suc l))"

definition count_newlines :: "string \<Rightarrow> nat" where
  "count_newlines s = length (filter (\<lambda>c. c = newline) s)"

text \<open>The line (from 1) and the character of a position.\<close>

definition tk_line_char :: "string \<Rightarrow> nat \<Rightarrow> nat \<times> nat" where
  "tk_line_char s p =
     (if length s < p then (Suc (Suc (count_newlines s)), 0)
      else (Suc (count_newlines (take p s)),
            length (takeWhile (\<lambda>c. c \<noteq> newline) (rev (take p s)))))"

text \<open>
  A character beyond the end of its line denotes the newline of that line; a line beyond
  the last one denotes \<^verbatim>\<open>end\<close>.
\<close>

definition line_char_offset :: "string \<Rightarrow> nat \<Rightarrow> nat \<Rightarrow> nat" where
  "line_char_offset s l c =
     (case l of
        0 \<Rightarrow> 0
      | Suc l0 \<Rightarrow>
          (case line_offset s l0 of
             None \<Rightarrow> Suc (length s)
           | Some q \<Rightarrow> q + min c (length (takeWhile (\<lambda>x. x \<noteq> newline) (drop q s)))))"

fun tk_offset :: "string \<Rightarrow> tk_index \<Rightarrow> nat" where
  "tk_offset s (LineChar l c) = line_char_offset s l c"
| "tk_offset s END = Suc (length s)"
| "tk_offset s (PlusLines i n) =
     (case tk_line_char s (tk_offset s i) of (l, c) \<Rightarrow> line_char_offset s (l + n) c)"

definition tk_config_state :: "widget_state \<Rightarrow> text_widget \<Rightarrow> text_widget" where
  "tk_config_state st w = w\<lparr>state := st\<rparr>"

text \<open>
  \<^verbatim>\<open>insert(index, chars)\<close>: the characters go in front of the one at the index; at
  \<^verbatim>\<open>end\<close> that is the final newline. A disabled widget ignores the call.
\<close>

definition tk_insert :: "tk_index \<Rightarrow> string \<Rightarrow> text_widget \<Rightarrow> text_widget" where
  "tk_insert i chars w =
     (if state w = Disabled then w
      else let s = content w; p = min (tk_offset s i) (length s)
           in w\<lparr>content := take p s @ chars @ drop p s\<rparr>)"

text \<open>
  \<^verbatim>\<open>delete(index1, index2)\<close>: nothing happens unless the first index is before the
  second. A range that reaches \<^verbatim>\<open>end\<close> stops before the final newline, and when it starts
  at the beginning of a line other than the first it takes the newline in front of it
  instead.
\<close>

definition tk_delete :: "tk_index \<Rightarrow> tk_index \<Rightarrow> text_widget \<Rightarrow> text_widget" where
  "tk_delete i1 i2 w =
     (if state w = Disabled then w
      else let s = content w; p1 = tk_offset s i1; p2 = tk_offset s i2
           in if p2 \<le> p1 then w
              else if p2 = Suc (length s)
              then (case tk_line_char s p1 of
                      (l, c) \<Rightarrow>
                        let q1 = (if c = 0 \<and> l \<noteq> 1 then p1 - 1 else p1)
                        in w\<lparr>content := take q1 s\<rparr>)
              else w\<lparr>content := take p1 s @ drop p2 s\<rparr>)"

text \<open>The position of the first occurrence of a pattern in a text.\<close>

fun text_search :: "string \<Rightarrow> string \<Rightarrow> nat option" where
  "text_search pat [] = (if pat = [] then Some 0 else None)"
| "text_search pat (c # cs) =
     (if prefix pat (c # cs) then Some 0 else map_option Suc (text_search pat cs))"

text \<open>
  \<^verbatim>\<open>search(pattern, "1.0", END)\<close>: the index of the first exact match in the whole text,
  or nothing (the empty string of Tk). The patterns of the program hold no newline.
\<close>

definition tk_search :: "string \<Rightarrow> text_widget \<Rightarrow> tk_index option" where
  "tk_search pat w =
     map_option (\<lambda>p. case tk_line_char (content w) p of (l, c) \<Rightarrow> LineChar l c)
       (text_search pat (content w))"

section \<open>DictionaryApp\<close>

text \<open>
  The state of the application: the text of the entry field, the results widget, the
  warnings that \<^verbatim>\<open>messagebox.showwarning\<close> has shown (title and message), the words
  for which the dictionary service has been called, the words for which a thread running
  \<^verbatim>\<open>get_llm_definition\<close> has been started, and the results that \<^verbatim>\<open>root.after\<close> has
  queued for the main loop. Fonts, colours and the \<^verbatim>\<open>header\<close> tag only style the text.
\<close>

record app =
  word_entry :: string
  results_text :: text_widget
  warnings :: "(string \<times> string) list"
  lookups :: "string list"
  threads :: "string list"
  after_queue :: "json list"

text \<open>\<^verbatim>\<open>str.isspace\<close> on the code points below 256, and \<^verbatim>\<open>str.strip()\<close>.\<close>

definition py_isspace :: "char \<Rightarrow> bool" where
  "py_isspace c = (of_char c \<in> {9, 10, 11, 12, 13, 28, 29, 30, 31, 32, 133, 160 :: nat})"

definition strip :: "string \<Rightarrow> string" where
  "strip s = rev (dropWhile py_isspace (rev (dropWhile py_isspace s)))"

text \<open>\<^verbatim>\<open>result + "\n\n"\<close>: only a string can be extended by a string.\<close>

fun py_add_str :: "json \<Rightarrow> string \<Rightarrow> exn + string" where
  "py_add_str (JStr s) t = Inr (s @ t)"
| "py_add_str (JList xs) t = Inl (TypeError ''can only concatenate list (not \"str\") to list'')"
| "py_add_str v t =
     Inl (TypeError (''unsupported operand type(s) for +: '' @ quoted (type_name v)
                     @ '' and '' @ quoted ''str''))"

definition placeholder :: string where
  "placeholder = ''Fetching definition from LLM... Please wait.''"

definition marker :: string where
  "marker = ''Fetching definition from LLM...''"

definition add_result_header :: "string \<Rightarrow> app \<Rightarrow> app" where
  "add_result_header title a =
     a\<lparr>results_text := tk_insert END (''--- '' @ title @ '' ---'' @ [newline]) (results_text a)\<rparr>"

text \<open>
  \<^verbatim>\<open>search_word\<close>, lines 129 to 149. The result pairs the exception that leaves the
  method, if any, with the state it leaves behind.
\<close>

definition search_word :: "world \<Rightarrow> app \<Rightarrow> exn option \<times> app" where
  "search_word W a =
     (let word = strip (word_entry a)
      in if word = []
         then (None, a\<lparr>warnings := warnings a @ [(''Input Error'', ''Please enter a word to search.'')]\<rparr>)
         else
           let a1 = a\<lparr>results_text := tk_config_state Normal (results_text a)\<rparr>;
               a2 = a1\<lparr>results_text := tk_delete (LineChar 1 0) END (results_text a1)\<rparr>;
               a3 = add_result_header ''Free Dictionary (dictionaryapi.dev)'' a2;
               a4 = a3\<lparr>lookups := lookups a3 @ [word]\<rparr>
           in case get_free_dictionary_definition W word of
                Inl e \<Rightarrow> (Some e, a4)
              | Inr definition1 \<Rightarrow>
                  let a5 = a4\<lparr>results_text :=
                              tk_insert END (definition1 @ [newline, newline]) (results_text a4)\<rparr>;
                      a6 = add_result_header ''LLM Definition (Gemini)'' a5;
                      a7 = a6\<lparr>results_text :=
                              tk_insert END (placeholder @ [newline]) (results_text a6)\<rparr>
                  in (None, a7\<lparr>threads := threads a7 @ [word]\<rparr>))"

text \<open>\<^verbatim>\<open>update_llm_result\<close>, lines 151 to 154: the result is queued for the main loop.\<close>

definition update_llm_result :: "json \<Rightarrow> app \<Rightarrow> app" where
  "update_llm_result result a = a\<lparr>after_queue := after_queue a @ [result]\<rparr>"

text \<open>
  \<^verbatim>\<open>_insert_llm_result\<close>, lines 156 to 168 (a name cannot start with an underscore
  here). The deletion of line 163 comes before \<^verbatim>\<open>result + "\n\n"\<close> is evaluated.
\<close>

definition insert_llm_result :: "json \<Rightarrow> app \<Rightarrow> exn option \<times> app" where
  "insert_llm_result result a =
     (let w0 = tk_config_state Normal (results_text a)
      in case tk_search marker w0 of
           Some start_index \<Rightarrow>
             let end_index = PlusLines start_index 1;
                 w1 = tk_delete start_index end_index w0
             in (case py_add_str result [newline, newline] of
                   Inl e \<Rightarrow> (Some e, a\<lparr>results_text := w1\<rparr>)
                 | Inr chars \<Rightarrow>
                     (None, a\<lparr>results_text :=
                                tk_config_state Disabled (tk_insert start_index chars w1)\<rparr>))
         | None \<Rightarrow>
             (case py_add_str result [newline, newline] of
                Inl e \<Rightarrow> (Some e, a\<lparr>results_text := w0\<rparr>)
              | Inr chars \<Rightarrow>
                  (None, a\<lparr>results_text :=
                             tk_config_state Disabled (tk_insert END chars w0)\<rparr>)))"

section \<open>The documents the services are expected to send\<close>

text \<open>
  The definitions of this section are not code of the program: they say, in the words of
  the specification, which documents are meant, so that the properties below can be stated
  against them.
\<close>

fun is_object :: "json \<Rightarrow> bool" where
  "is_object (JDict kvs) = True"
| "is_object v = False"

text \<open>The value of a key of an object, and the first item of a non-empty list.\<close>

fun field :: "string \<Rightarrow> json \<Rightarrow> json option" where
  "field k (JDict kvs) = map_of kvs k"
| "field k v = None"

fun first_item :: "json \<Rightarrow> json option" where
  "first_item (JList (x # xs)) = Some x"
| "first_item v = None"

text \<open>
  Section 4.2: a response of the generation service is well-formed when it holds a
  non-empty list \<^verbatim>\<open>candidates\<close>, whose first item has an object \<^verbatim>\<open>content\<close>, which holds a
  non-empty list \<^verbatim>\<open>parts\<close>, whose first item has a field \<^verbatim>\<open>text\<close>. \<open>first_part_text\<close>
  follows this chain and gives the field, or \<open>None\<close> when a step is absent or of the
  wrong shape.
\<close>

definition first_part_text :: "json \<Rightarrow> json option" where
  "first_part_text result =
     do {
       cands \<leftarrow> field ''candidates'' result;
       candidate \<leftarrow> first_item cands;
       cont \<leftarrow> field ''content'' candidate;
       parts \<leftarrow> field ''parts'' cont;
       part \<leftarrow> first_item parts;
       field ''text'' part
     }"


text \<open>
  The values on which the condition of lines 67 to 74 calls \<^verbatim>\<open>.get\<close>, in the order of the
  calls, as long as each one is an object: the response, the first candidate, its content
  when that is not false, and the first part.
\<close>

definition dereferenced :: "json \<Rightarrow> json list" where
  "dereferenced result =
     result #
     (case Option.bind (field ''candidates'' result) first_item of
        None \<Rightarrow> []
      | Some candidate \<Rightarrow>
          candidate #
          (case field ''content'' candidate of
             None \<Rightarrow> []
           | Some cont \<Rightarrow>
               if truthy cont
               then cont #
                 (case Option.bind (field ''parts'' cont) first_item of
                    None \<Rightarrow> []
                  | Some part \<Rightarrow> [part])
               else []))"

text \<open>
  Section 4.1: the dictionary service sends a list of entries; an entry has meanings; a
  meaning has a part-of-speech tag and definitions; a definition has a text and an optional
  example. \<open>sense\<close> is one definition of one meaning, with the empty text for no example
  (the default of line 26), \<open>definition_entry\<close> the DefinitionEntry of section 3.
\<close>

record sense =
  definition_text :: string
  example_text :: string

record meaning =
  part_of_speech :: string
  senses :: "sense list"

type_synonym entry = "meaning list"

record definition_entry =
  entry_part_of_speech :: string
  entry_definition :: string
  entry_example :: string

text \<open>
  When a decoded document stands for an entry. Only the keys that the program reads are
  constrained; an object may hold any other keys. A key that is absent stands for the
  default of the program: the tag \<^verbatim>\<open>N/A\<close>, the text \<^verbatim>\<open>No definition found.\<close>, no
  example, no meanings, no definitions.
\<close>

definition text_field :: "string \<Rightarrow> string \<Rightarrow> json \<Rightarrow> string \<Rightarrow> bool" where
  "text_field k dflt j s =
     (is_object j \<and>
      (case field k j of None \<Rightarrow> s = dflt | Some (JStr t) \<Rightarrow> s = t | Some v \<Rightarrow> False))"

definition list_field :: "string \<Rightarrow> (json \<Rightarrow> 'a \<Rightarrow> bool) \<Rightarrow> json \<Rightarrow> 'a list \<Rightarrow> bool" where
  "list_field k R j xs =
     (is_object j \<and>
      (case field k j of
         None \<Rightarrow> xs = []
       | Some (JList js) \<Rightarrow> list_all2 R js xs
       | Some v \<Rightarrow> False))"

definition sense_rel :: "json \<Rightarrow> sense \<Rightarrow> bool" where
  "sense_rel j d =
     (text_field ''definition'' ''No definition found.'' j (definition_text d) \<and>
      text_field ''example'' [] j (example_text d))"

definition meaning_rel :: "json \<Rightarrow> meaning \<Rightarrow> bool" where
  "meaning_rel j m =
     (text_field ''partOfSpeech'' ''N/A'' j (part_of_speech m) \<and>
      list_field ''definitions'' sense_rel j (senses m))"

definition entry_rel :: "json \<Rightarrow> entry \<Rightarrow> bool" where
  "entry_rel j e = list_field ''meanings'' meaning_rel j e"

text \<open>
  The flattened sequence of definitions, in the order of the entries, of their meanings
  and of their definitions, and the text of one DefinitionEntry.
\<close>

definition flatten_meaning :: "meaning \<Rightarrow> definition_entry list" where
  "flatten_meaning m =
     map (\<lambda>d. \<lparr>entry_part_of_speech = part_of_speech m,
               entry_definition = definition_text d,
               entry_example = example_text d\<rparr>) (senses m)"

definition flatten :: "entry list \<Rightarrow> definition_entry list" where
  "flatten es = concat (map (\<lambda>e. concat (map flatten_meaning e)) es)"

definition render :: "definition_entry \<Rightarrow> string" where
  "render d =
     ''('' @ entry_part_of_speech d @ '') '' @ entry_definition d
     @ (if entry_example d \<noteq> []
        then [newline] @ ''  - Example: \"'' @ entry_example d @ ''\"''
        else [])"

section \<open>Concrete inputs\<close>

text \<open>
  Worlds, documents and states at which the properties below are evaluated.
  \<open>answering r dump\<close> is the world in which both services answer \<open>r\<close> and
  \<^verbatim>\<open>json.dumps\<close> gives \<open>dump\<close>; none of these worlds formats a float, a list or a dict.
\<close>

definition answering :: "response \<Rightarrow> string \<Rightarrow> world" where
  "answering r dump =
     \<lparr>http_get = (\<lambda>u. Inr r), http_post = (\<lambda>u h p. Inr r),
      py_repr = (\<lambda>v. []), json_dumps = (\<lambda>v. dump)\<rparr>"

definition response_404 :: response where
  "response_404 =
     \<lparr>status_code = 404, reason = ''Not Found'', url = dictionary_url ''zzzz'',
      body_text = ''{\"title\": \"No Definitions Found\"}'',
      json_result = Decoded (JDict [(''title'', JStr ''No Definitions Found'')])\<rparr>"

definition response_html :: response where
  "response_html =
     \<lparr>status_code = 200, reason = ''OK'', url = dictionary_url ''cat'',
      body_text = ''<html>maintenance</html>'',
      json_result = DecodeError ''Expecting value: line 1 column 1 (char 0)''\<rparr>"

definition response_object :: response where
  "response_object =
     \<lparr>status_code = 200, reason = ''OK'', url = dictionary_url ''cat'',
      body_text = ''{\"title\": \"No Definitions Found\"}'',
      json_result = Decoded (JDict [(''title'', JStr ''No Definitions Found'')])\<rparr>"

definition doc_serendipity :: "json list" where
  "doc_serendipity =
     [JDict [(''word'', JStr ''serendipity''),
             (''meanings'', JList
                [JDict [(''partOfSpeech'', JStr ''noun''),
                        (''definitions'', JList
                           [JDict [(''definition'', JStr
                              ''the occurrence of events by chance in a happy or beneficial way''),
                                   (''synonyms'', JList [])]])]])]]"

definition entries_serendipity :: "entry list" where
  "entries_serendipity =
     [[\<lparr>part_of_speech = ''noun'',
        senses = [\<lparr>definition_text =
                     ''the occurrence of events by chance in a happy or beneficial way'',
                   example_text = []\<rparr>]\<rparr>]]"

definition response_serendipity :: response where
  "response_serendipity =
     \<lparr>status_code = 200, reason = ''OK'', url = dictionary_url ''serendipity'',
      body_text = ''[{\"word\": \"serendipity\", \"meanings\": [{\"partOfSpeech\": \"noun\", \"definitions\": [{\"definition\": \"the occurrence of events by chance in a happy or beneficial way\", \"synonyms\": []}]}]}]'',
      json_result = Decoded (JList doc_serendipity)\<rparr>"

definition doc_two_entries :: "json list" where
  "doc_two_entries =
     [JDict [(''meanings'', JList
                [JDict [(''partOfSpeech'', JStr ''noun''),
                        (''definitions'', JList
                           [JDict [(''definition'', JStr ''A'')],
                            JDict [(''definition'', JStr ''B''), (''example'', JStr ''b'')]])]])],
      JDict [(''meanings'', JList
                [JDict [(''partOfSpeech'', JStr ''verb''),
                        (''definitions'', JList [JDict [(''definition'', JStr ''C'')]])]])]]"

definition response_two_entries :: response where
  "response_two_entries =
     \<lparr>status_code = 200, reason = ''OK'', url = dictionary_url ''abc'',
      body_text = ''[{\"meanings\": [{\"partOfSpeech\": \"noun\", \"definitions\": [{\"definition\": \"A\"}, {\"definition\": \"B\", \"example\": \"b\"}]}]}, {\"meanings\": [{\"partOfSpeech\": \"verb\", \"definitions\": [{\"definition\": \"C\"}]}]}]'',
      json_result = Decoded (JList doc_two_entries)\<rparr>"

definition entries_two_entries :: "entry list" where
  "entries_two_entries =
     [[\<lparr>part_of_speech = ''noun'',
        senses = [\<lparr>definition_text = ''A'', example_text = []\<rparr>,
                  \<lparr>definition_text = ''B'', example_text = ''b''\<rparr>]\<rparr>],
      [\<lparr>part_of_speech = ''verb'',
        senses = [\<lparr>definition_text = ''C'', example_text = []\<rparr>]\<rparr>]]"

definition doc_no_senses :: "json list" where
  "doc_no_senses =
     [JDict [(''word'', JStr ''qwerty''), (''meanings'', JList [])],
      JDict [(''word'', JStr ''qwerty''),
             (''meanings'', JList [JDict [(''partOfSpeech'', JStr ''noun''),
                                         (''definitions'', JList [])]])]]"

definition entries_no_senses :: "entry list" where
  "entries_no_senses = [[], [\<lparr>part_of_speech = ''noun'', senses = []\<rparr>]]"

definition response_no_senses :: response where
  "response_no_senses =
     \<lparr>status_code = 200, reason = ''OK'', url = dictionary_url ''qwerty'',
      body_text = ''[{\"word\": \"qwerty\", \"meanings\": []}, {\"word\": \"qwerty\", \"meanings\": [{\"partOfSpeech\": \"noun\", \"definitions\": []}]}]'',
      json_result = Decoded (JList doc_no_senses)\<rparr>"

definition widget_empty :: text_widget where
  "widget_empty = \<lparr>content = [], state = Disabled\<rparr>"

definition app_idle :: app where
  "app_idle =
     \<lparr>word_entry = ''cat'', results_text = widget_empty, warnings = [], lookups = [],
      threads = [], after_queue = []\<rparr>"


definition result_bad_content :: json where
  "result_bad_content = JDict [(''candidates'', JList [JDict [(''content'', JStr ''blocked'')]])]"

definition dump_bad_content :: string where
  "dump_bad_content =
     ''{\<newline>  \"candidates\": [\<newline>    {\<newline>      \"content\": \"blocked\"\<newline>    }\<newline>  ]\<newline>}''"

definition response_bad_content :: response where
  "response_bad_content =
     \<lparr>status_code = 200, reason = ''OK'', url = full_api_url,
      body_text = ''{\"candidates\": [{\"content\": \"blocked\"}]}'',
      json_result = Decoded result_bad_content\<rparr>"








definition result_answer :: json where
  "result_answer =
     JDict [(''candidates'', JList
        [JDict [(''content'', JDict [(''parts'', JList [JDict [(''text'', JStr ''A small cat.'')]]),
                                  (''role'', JStr ''model'')])]])]"

definition response_answer :: response where
  "response_answer =
     \<lparr>status_code = 200, reason = ''OK'', url = full_api_url,
      body_text = ''{\"candidates\": [{\"content\": {\"parts\": [{\"text\": \"A small cat.\"}], \"role\": \"model\"}}]}'',
      json_result = Decoded result_answer\<rparr>"

definition app_blank :: app where
  "app_blank =
     \<lparr>word_entry = [CHR '' '', CHR 0x09, CHR '' ''], results_text = widget_empty, warnings = [],
      lookups = [], threads = [], after_queue = []\<rparr>"

definition app_serendipity :: app where
  "app_serendipity =
     \<lparr>word_entry = '' serendipity '', results_text = widget_empty, warnings = [],
      lookups = [], threads = [], after_queue = []\<rparr>"

definition pre_waiting :: string where
  "pre_waiting =
     ''--- Free Dictionary (dictionaryapi.dev) ---\<newline>(noun) the occurrence of events by chance in a happy or beneficial way\<newline>\<newline>--- LLM Definition (Gemini) ---\<newline>''"

definition app_waiting :: app where
  "app_waiting =
     \<lparr>word_entry = '' serendipity '',
      results_text = \<lparr>content = pre_waiting @ placeholder @ [newline], state = Normal\<rparr>,
      warnings = [], lookups = [''serendipity''], threads = [''serendipity''],
      after_queue = []\<rparr>"


text \<open>
  A dictionary answer whose definition quotes the text that \<^verbatim>\<open>_insert_llm_result\<close> searches
  for, and the state in which \<^verbatim>\<open>search_word\<close> leaves the application after it.
\<close>

definition doc_collision :: "json list" where
  "doc_collision =
     [JDict [(''meanings'', JList
                [JDict [(''partOfSpeech'', JStr ''noun''),
                        (''definitions'', JList
                           [JDict [(''definition'', JStr
                              ''Fetching definition from LLM... is what the window shows'')]])]])]]"

definition response_collision :: response where
  "response_collision =
     \<lparr>status_code = 200, reason = ''OK'', url = dictionary_url ''fetching'',
      body_text = ''[{\"meanings\": [{\"partOfSpeech\": \"noun\", \"definitions\": [{\"definition\": \"Fetching definition from LLM... is what the window shows\"}]}]}]'',
      json_result = Decoded (JList doc_collision)\<rparr>"

definition app_fetching :: app where
  "app_fetching =
     \<lparr>word_entry = ''fetching'', results_text = widget_empty, warnings = [],
      lookups = [], threads = [], after_queue = []\<rparr>"

definition pre_collision :: string where
  "pre_collision =
     ''--- Free Dictionary (dictionaryapi.dev) ---\<newline>(noun) Fetching definition from LLM... is what the window shows\<newline>\<newline>--- LLM Definition (Gemini) ---\<newline>''"

definition app_collision :: app where
  "app_collision =
     \<lparr>word_entry = ''fetching'',
      results_text = \<lparr>content = pre_collision @ placeholder @ [newline], state = Normal\<rparr>,
      warnings = [], lookups = [''fetching''], threads = [''fetching''], after_queue = []\<rparr>"



section \<open>Properties of get_free_dictionary_definition\<close>

lemma raise_for_status_404:
  "status_code r = 404 \<Longrightarrow>
   raise_for_status r =
     Inl (HTTPError (show_nat 404 @ '' Client Error: '' @ reason r @ '' for url: '' @ url r) r)"
  by (simp add: raise_for_status_def)

lemma raise_for_status_ok:
  "\<not> (400 \<le> status_code r \<and> status_code r < 600) \<Longrightarrow> raise_for_status r = Inr ()"
  by (auto simp add: raise_for_status_def)

text \<open>
  C7. Whatever the word, when the dictionary service answers with status 404 the lookup
  returns exactly the text "Word not found in this dictionary.".
\<close>

theorem dictionary_404_not_found:
  "http_get W (dictionary_url word) = Inr r \<Longrightarrow> status_code r = 404 \<Longrightarrow>
   get_free_dictionary_definition W word = Inr ''Word not found in this dictionary.''"
  by (simp add: get_free_dictionary_definition_def dictionary_try_def and_then_def
      raise_for_status_404 word_not_found_def)

theorem dictionary_404_not_found_witness:
  "http_get (answering response_404 []) (dictionary_url ''zzzz'') = Inr response_404 \<and>
   status_code response_404 = 404 \<and>
   get_free_dictionary_definition (answering response_404 []) ''zzzz'' =
     Inr ''Word not found in this dictionary.''"
  using dictionary_404_not_found [of "answering response_404 []" "''zzzz''" response_404]
  by (simp add: answering_def response_404_def)

subsection \<open>A body that is not JSON\<close>

text \<open>
  The third \<^verbatim>\<open>except\<close> clause returns the text of the claim for a plain
  \<^verbatim>\<open>json.JSONDecodeError\<close>. The exception that \<^verbatim>\<open>Response.json()\<close> raises is a
  \<^verbatim>\<open>RequestException\<close> as well, and the second clause, which comes first, takes it.
\<close>

lemma dictionary_except_plain_decode_error:
  "dictionary_except (JSONDecodeError m) = Inr ''Could not parse the response from the server.''"
  by (simp add: could_not_parse_def)

lemma dictionary_except_requests_decode_error:
  "dictionary_except (RequestsJSONDecodeError m) = Inr (''An error occurred: '' @ m)"
  by simp

lemma dictionary_undecodable:
  "http_get W (dictionary_url word) = Inr r \<Longrightarrow>
   \<not> (400 \<le> status_code r \<and> status_code r < 600) \<Longrightarrow>
   json_result r = DecodeError m \<Longrightarrow>
   get_free_dictionary_definition W word = Inr (''An error occurred: '' @ m)"
  by (simp add: get_free_dictionary_definition_def dictionary_try_def and_then_def
      raise_for_status_ok Response_json_def)

text \<open>Another exception of the decoder is named by no clause and leaves the function.\<close>

lemma dictionary_decoder_raises:
  "http_get W (dictionary_url word) = Inr r \<Longrightarrow>
   \<not> (400 \<le> status_code r \<and> status_code r < 600) \<Longrightarrow>
   json_result r = DecoderRaised m \<Longrightarrow>
   get_free_dictionary_definition W word = Inl (OtherException m)"
  by (simp add: get_free_dictionary_definition_def dictionary_try_def and_then_def
      raise_for_status_ok Response_json_def)

text \<open>
  C3 says that a successful response whose body cannot be decoded as JSON gives exactly
  "Could not parse the response from the server.". The program does not do that: for the
  word \<^verbatim>\<open>cat\<close> and a response with status 200 and an HTML body, the lookup returns the
  text of the second \<^verbatim>\<open>except\<close> clause, "An error occurred: " followed by the decoder's
  message.
\<close>

theorem dictionary_undecodable_body:
  "get_free_dictionary_definition (answering response_html []) ''cat'' =
     Inr ''An error occurred: Expecting value: line 1 column 1 (char 0)'' \<and>
   get_free_dictionary_definition (answering response_html []) ''cat'' \<noteq>
     Inr ''Could not parse the response from the server.''"
  by (simp add: get_free_dictionary_definition_def dictionary_try_def and_then_def
      raise_for_status_def Response_json_def answering_def response_html_def)

subsection \<open>A document that is not a list of entries\<close>

text \<open>
  C9 says that every body that decodes as JSON and is not a list gives
  "No definition found for this word.". The object that the service sends with status 404
  is such a body, and there the lookup returns "Word not found in this dictionary.":
  \<^verbatim>\<open>raise_for_status\<close> raises before the body is decoded.
\<close>

theorem dictionary_error_object:
  "json_result response_404 = Decoded (JDict [(''title'', JStr ''No Definitions Found'')]) \<and>
   \<not> isinstance_list (JDict [(''title'', JStr ''No Definitions Found'')]) \<and>
   get_free_dictionary_definition (answering response_404 []) ''zzzz'' =
     Inr ''Word not found in this dictionary.'' \<and>
   get_free_dictionary_definition (answering response_404 []) ''zzzz'' \<noteq>
     Inr ''No definition found for this word.''"
  by (simp add: get_free_dictionary_definition_def dictionary_try_def and_then_def
      raise_for_status_def answering_def response_404_def word_not_found_def)

text \<open>
  C9, amended. When the service answers without an error status (a status outside 400 to
  599) and the body decodes to a document that is not a list, or to the empty list, the
  lookup returns "No definition found for this word.", not the parse-error text.
\<close>

theorem dictionary_not_a_list:
  "http_get W (dictionary_url word) = Inr r \<Longrightarrow>
   \<not> (400 \<le> status_code r \<and> status_code r < 600) \<Longrightarrow>
   json_result r = Decoded data \<Longrightarrow>
   (\<forall>es. data \<noteq> JList es) \<or> data = JList [] \<Longrightarrow>
   get_free_dictionary_definition W word = Inr ''No definition found for this word.'' \<and>
   get_free_dictionary_definition W word \<noteq> Inr ''Could not parse the response from the server.''"
  by (cases data)
    (auto simp add: get_free_dictionary_definition_def dictionary_try_def and_then_def
      raise_for_status_ok Response_json_def no_definition_found_def)

theorem dictionary_not_a_list_witness:
  "http_get (answering response_object []) (dictionary_url ''cat'') = Inr response_object \<and>
   \<not> (400 \<le> status_code response_object \<and> status_code response_object < 600) \<and>
   json_result response_object = Decoded (JDict [(''title'', JStr ''No Definitions Found'')]) \<and>
   ((\<forall>es. JDict [(''title'', JStr ''No Definitions Found'')] \<noteq> JList es) \<or>
    JDict [(''title'', JStr ''No Definitions Found'')] = JList []) \<and>
   get_free_dictionary_definition (answering response_object []) ''cat'' =
     Inr ''No definition found for this word.'' \<and>
   get_free_dictionary_definition (answering response_object []) ''cat'' \<noteq>
     Inr ''Could not parse the response from the server.''"
  using dictionary_not_a_list [of "answering response_object []" "''cat''" response_object
      "JDict [(''title'', JStr ''No Definitions Found'')]"]
  by (simp add: answering_def response_object_def)

subsection \<open>A list of entries\<close>

lemma text_field_get:
  "text_field k dflt j s \<Longrightarrow> py_get j k (JStr dflt) = Inr (JStr s)"
  by (cases j) (auto simp add: text_field_def split: option.splits json.splits)

lemma list_field_get:
  "list_field k R j xs \<Longrightarrow>
   \<exists>js. and_then (py_get j k (JList [])) py_iter = Inr js \<and> list_all2 R js xs"
  by (cases j) (auto simp add: list_field_def and_then_def split: option.splits json.splits)

lemma format_definition_rel:
  assumes "sense_rel j d"
  shows "format_definition W (JStr pos) j =
           Inr (render \<lparr>entry_part_of_speech = pos, entry_definition = definition_text d,
                        entry_example = example_text d\<rparr>)"
  using assms text_field_get [of "''definition''" "''No definition found.''" j "definition_text d"]
    text_field_get [of "''example''" "[]" j "example_text d"]
  by (simp add: sense_rel_def format_definition_def and_then_def render_def)

lemma definitions_loop_rel:
  "list_all2 sense_rel js ds \<Longrightarrow>
   definitions_loop W (JStr pos) js acc =
     Inr (acc @ map (\<lambda>d. render \<lparr>entry_part_of_speech = pos,
                                  entry_definition = definition_text d,
                                  entry_example = example_text d\<rparr>) ds)"
proof (induction js ds arbitrary: acc rule: list_all2_induct)
  case Nil
  then show ?case by simp
next
  case (Cons j js d ds)
  then show ?case by (simp add: format_definition_rel and_then_def)
qed

lemma meaning_body_rel:
  assumes "meaning_rel j m"
  shows "meaning_body W j acc = Inr (acc @ map render (flatten_meaning m))"
proof -
  from assms have pos: "py_get j ''partOfSpeech'' (JStr ''N/A'') = Inr (JStr (part_of_speech m))"
    by (simp add: meaning_rel_def text_field_get)
  from assms obtain js where
    js: "and_then (py_get j ''definitions'' (JList [])) py_iter = Inr js"
      "list_all2 sense_rel js (senses m)"
    using list_field_get [of "''definitions''" sense_rel j "senses m"]
    by (auto simp add: meaning_rel_def)
  from js(1) have "meaning_body W j acc = definitions_loop W (JStr (part_of_speech m)) js acc"
    by (auto simp add: meaning_body_def pos and_then_def split: sum.splits)
  with js(2) show ?thesis
    by (simp add: definitions_loop_rel flatten_meaning_def comp_def)
qed

lemma meanings_loop_rel:
  "list_all2 meaning_rel js ms \<Longrightarrow>
   meanings_loop W js acc = Inr (acc @ map render (concat (map flatten_meaning ms)))"
proof (induction js ms arbitrary: acc rule: list_all2_induct)
  case Nil
  then show ?case by simp
next
  case (Cons j js m ms)
  then show ?case by (simp add: meaning_body_rel and_then_def)
qed

lemma entry_body_rel:
  assumes "entry_rel j e"
  shows "entry_body W j acc = Inr (acc @ map render (concat (map flatten_meaning e)))"
proof -
  from assms obtain js where
    js: "and_then (py_get j ''meanings'' (JList [])) py_iter = Inr js"
      "list_all2 meaning_rel js e"
    using list_field_get [of "''meanings''" meaning_rel j e] by (auto simp add: entry_rel_def)
  from js(1) have "entry_body W j acc = meanings_loop W js acc"
    by (auto simp add: entry_body_def and_then_def split: sum.splits)
  with js(2) show ?thesis by (simp add: meanings_loop_rel)
qed

lemma entries_loop_rel:
  "list_all2 entry_rel js es \<Longrightarrow>
   entries_loop W js acc = Inr (acc @ map render (flatten es))"
proof (induction js es arbitrary: acc rule: list_all2_induct)
  case Nil
  then show ?case by (simp add: flatten_def)
next
  case (Cons j js e es)
  then show ?case by (simp add: entry_body_rel and_then_def flatten_def)
qed

lemma dictionary_renders:
  assumes "http_get W (dictionary_url word) = Inr r"
    and "\<not> (400 \<le> status_code r \<and> status_code r < 600)"
    and "json_result r = Decoded (JList js)"
    and "list_all2 entry_rel js es"
  shows "get_free_dictionary_definition W word =
           Inr (if flatten es = [] then no_definition_found
                else str_join [newline] (map render (flatten es)))"
proof (cases js)
  case Nil
  with assms show ?thesis
    by (simp add: get_free_dictionary_definition_def dictionary_try_def and_then_def
        raise_for_status_ok Response_json_def flatten_def)
next
  case (Cons j js')
  with assms(4) have "entries_loop W js [] = Inr (map render (flatten es))"
    using entries_loop_rel [of js es W "[]"] by simp
  with assms(1-3) Cons show ?thesis
    by (simp add: get_free_dictionary_definition_def dictionary_try_def and_then_def
        raise_for_status_ok Response_json_def)
qed

text \<open>The flattened sequence keeps the order of the entries.\<close>

lemma flatten_append: "flatten (es1 @ es2) = flatten es1 @ flatten es2"
  by (simp add: flatten_def)

lemma str_join_concat: "str_join sep (x # xs) = x @ concat (map (\<lambda>y. sep @ y) xs)"
  by (induction xs arbitrary: x) auto

text \<open>
  C4. When the service answers without an error status and the body decodes to a list of
  entries, the lookup returns the texts of the flattened definitions, one per definition,
  in the order of the entries, of the meanings within an entry and of the definitions
  within a meaning: the text of the first definition, then, for each further definition, a
  newline and its text. The text of a definition is \<^verbatim>\<open>(part-of-speech) definition\<close>,
  followed by a line \<^verbatim>\<open>  - Example: "..."\<close> exactly when the definition has an example, that
  is a text that is not empty. (With no definition at all the lookup returns the text of
  C5.)
\<close>

theorem dictionary_flattens_in_order:
  assumes "http_get W (dictionary_url word) = Inr r"
    and "\<not> (400 \<le> status_code r \<and> status_code r < 600)"
    and "json_result r = Decoded (JList js)"
    and "list_all2 entry_rel js es"
  shows "get_free_dictionary_definition W word =
           Inr (case flatten es of
                  [] \<Rightarrow> ''No definition found for this word.''
                | d # ds \<Rightarrow> render d @ concat (map (\<lambda>x. newline # render x) ds))"
  using dictionary_renders [OF assms]
  by (cases "flatten es") (simp_all add: no_definition_found_def str_join_concat comp_def)

theorem dictionary_flattens_in_order_witness:
  "http_get (answering response_serendipity []) (dictionary_url ''serendipity'')
     = Inr response_serendipity \<and>
   \<not> (400 \<le> status_code response_serendipity \<and> status_code response_serendipity < 600) \<and>
   json_result response_serendipity = Decoded (JList doc_serendipity) \<and>
   list_all2 entry_rel doc_serendipity entries_serendipity \<and>
   get_free_dictionary_definition (answering response_serendipity []) ''serendipity'' =
     Inr ''(noun) the occurrence of events by chance in a happy or beneficial way'' \<and>
   http_get (answering response_two_entries []) (dictionary_url ''abc'')
     = Inr response_two_entries \<and>
   \<not> (400 \<le> status_code response_two_entries \<and> status_code response_two_entries < 600) \<and>
   json_result response_two_entries = Decoded (JList doc_two_entries) \<and>
   list_all2 entry_rel doc_two_entries entries_two_entries \<and>
   get_free_dictionary_definition (answering response_two_entries []) ''abc'' =
     Inr ''(noun) A\<newline>(noun) B\<newline>  - Example: \"b\"\<newline>(verb) C''"
proof -
  have rel: "list_all2 entry_rel doc_serendipity entries_serendipity"
    by (simp add: doc_serendipity_def entries_serendipity_def entry_rel_def list_field_def
        meaning_rel_def text_field_def sense_rel_def)
  have get: "http_get (answering response_serendipity []) (dictionary_url ''serendipity'')
               = Inr response_serendipity"
    by (simp add: answering_def)
  have ok: "\<not> (400 \<le> status_code response_serendipity \<and> status_code response_serendipity < 600)"
    by (simp add: response_serendipity_def)
  have doc: "json_result response_serendipity = Decoded (JList doc_serendipity)"
    by (simp add: response_serendipity_def)
  have flat: "flatten entries_serendipity =
          [\<lparr>entry_part_of_speech = ''noun'',
            entry_definition = ''the occurrence of events by chance in a happy or beneficial way'',
            entry_example = []\<rparr>]"
    by (simp add: flatten_def flatten_meaning_def entries_serendipity_def)
  have one: "get_free_dictionary_definition (answering response_serendipity []) ''serendipity'' =
     Inr ''(noun) the occurrence of events by chance in a happy or beneficial way''"
    using dictionary_flattens_in_order [OF get ok doc rel] flat by (simp add: render_def)
  have rel2: "list_all2 entry_rel doc_two_entries entries_two_entries"
    by (simp add: doc_two_entries_def entries_two_entries_def entry_rel_def list_field_def
        meaning_rel_def text_field_def sense_rel_def)
  have get2: "http_get (answering response_two_entries []) (dictionary_url ''abc'')
               = Inr response_two_entries"
    by (simp add: answering_def)
  have ok2: "\<not> (400 \<le> status_code response_two_entries \<and> status_code response_two_entries < 600)"
    by (simp add: response_two_entries_def)
  have doc2: "json_result response_two_entries = Decoded (JList doc_two_entries)"
    by (simp add: response_two_entries_def)
  have flat2: "flatten entries_two_entries =
          [\<lparr>entry_part_of_speech = ''noun'', entry_definition = ''A'', entry_example = []\<rparr>,
           \<lparr>entry_part_of_speech = ''noun'', entry_definition = ''B'', entry_example = ''b''\<rparr>,
           \<lparr>entry_part_of_speech = ''verb'', entry_definition = ''C'', entry_example = []\<rparr>]"
    by (simp add: flatten_def flatten_meaning_def entries_two_entries_def)
  have three: "get_free_dictionary_definition (answering response_two_entries []) ''abc'' =
     Inr ''(noun) A\<newline>(noun) B\<newline>  - Example: \"b\"\<newline>(verb) C''"
    using dictionary_flattens_in_order [OF get2 ok2 doc2 rel2] flat2
    by (simp add: render_def newline_def)
  from rel get ok doc one rel2 get2 ok2 doc2 three show ?thesis by simp
qed

text \<open>Entries that give the definitions A, B and then C are shown as A, B, C.\<close>

lemma dictionary_two_entries:
  "get_free_dictionary_definition (answering response_two_entries []) ''abc'' =
     Inr (''(noun) A'' @ [newline] @ ''(noun) B'' @ [newline] @ ''  - Example: \"b\"''
          @ [newline] @ ''(verb) C'')"
  by (simp add: get_free_dictionary_definition_def dictionary_try_def and_then_def
      raise_for_status_def Response_json_def answering_def response_two_entries_def
      doc_two_entries_def entry_body_def meaning_body_def format_definition_def)

text \<open>
  C5. When the service answers without an error status and the body decodes to a list of
  entries whose flattened sequence of definitions is empty, the lookup returns exactly
  "No definition found for this word.".
\<close>

theorem dictionary_no_definitions:
  assumes "http_get W (dictionary_url word) = Inr r"
    and "\<not> (400 \<le> status_code r \<and> status_code r < 600)"
    and "json_result r = Decoded (JList js)"
    and "list_all2 entry_rel js es"
    and "flatten es = []"
  shows "get_free_dictionary_definition W word = Inr ''No definition found for this word.''"
  using dictionary_renders [OF assms(1-4)] assms(5) by (simp add: no_definition_found_def)

theorem dictionary_no_definitions_witness:
  "http_get (answering response_no_senses []) (dictionary_url ''qwerty'') = Inr response_no_senses \<and>
   \<not> (400 \<le> status_code response_no_senses \<and> status_code response_no_senses < 600) \<and>
   json_result response_no_senses = Decoded (JList doc_no_senses) \<and>
   list_all2 entry_rel doc_no_senses entries_no_senses \<and>
   flatten entries_no_senses = [] \<and>
   get_free_dictionary_definition (answering response_no_senses []) ''qwerty'' =
     Inr ''No definition found for this word.''"
proof -
  have rel: "list_all2 entry_rel doc_no_senses entries_no_senses"
    by (simp add: doc_no_senses_def entries_no_senses_def entry_rel_def list_field_def
        meaning_rel_def text_field_def)
  have get: "http_get (answering response_no_senses []) (dictionary_url ''qwerty'')
               = Inr response_no_senses"
    by (simp add: answering_def)
  have ok: "\<not> (400 \<le> status_code response_no_senses \<and> status_code response_no_senses < 600)"
    by (simp add: response_no_senses_def)
  have doc: "json_result response_no_senses = Decoded (JList doc_no_senses)"
    by (simp add: response_no_senses_def)
  have none: "flatten entries_no_senses = []"
    by (simp add: flatten_def flatten_meaning_def entries_no_senses_def)
  from dictionary_no_definitions [OF get ok doc rel none] rel get ok doc none
  show ?thesis by simp
qed

section \<open>Properties of get_llm_definition\<close>

lemmas chain_defs = has_generated_text_def test_def and_then_def candidates_def candidate0_def
  content0_def parts0_def part00_def

lemma py_get_non_object: "\<not> is_object v \<Longrightarrow> py_get v k d = Inl (no_attribute_get v)"
  by (cases v) simp_all

lemma py_get_object:
  "is_object v \<Longrightarrow> py_get v k d = Inr (case field k v of None \<Rightarrow> d | Some x \<Rightarrow> x)"
  by (cases v) simp_all

lemma py_item_key_field: "field k v = Some x \<Longrightarrow> py_item_key v k = Inr x"
  by (cases v) simp_all

lemma field_is_object: "field k v = Some x \<Longrightarrow> is_object v"
  by (cases v) simp_all

lemma first_item_SomeD:
  "first_item c = Some x \<Longrightarrow>
   truthy c \<and> isinstance_list c \<and> (\<exists>n. py_len c = Inr (Suc n)) \<and> py_item_idx c 0 = Inr x"
  by (cases "(c)" rule: first_item.cases) simp_all

lemma first_item_NoneD: "first_item c = None \<Longrightarrow> truthy c \<Longrightarrow> isinstance_list c \<Longrightarrow> False"
  by (cases "(c)" rule: first_item.cases) simp_all

text \<open>
  What the condition of lines 67 to 74 computes: it raises \<^verbatim>\<open>AttributeError\<close> at the first
  value it dereferences that is not an object; otherwise it holds exactly when the chain of
  the specification leads to a text that is not false.
\<close>

lemma has_generated_text_eq:
  "has_generated_text result =
     (case find (\<lambda>v. \<not> is_object v) (dereferenced result) of
        Some v \<Rightarrow> Inl (no_attribute_get v)
      | None \<Rightarrow> Inr (case first_part_text result of Some t \<Rightarrow> truthy t | None \<Rightarrow> False))"
proof (cases "is_object result")
  case False
  then show ?thesis by (simp add: chain_defs dereferenced_def py_get_non_object)
next
  case obj: True
  show ?thesis
  proof (cases "field ''candidates'' result")
    case None
    with obj show ?thesis
      by (simp add: chain_defs dereferenced_def first_part_text_def py_get_object)
  next
    case (Some c)
    note c = Some
    show ?thesis
    proof (cases "first_item c")
      case None
      with obj c show ?thesis
        by (auto simp add: chain_defs dereferenced_def first_part_text_def py_get_object
            py_item_key_field dest: first_item_NoneD split: sum.splits)
    next
      case (Some x)
      note x = Some
      from first_item_SomeD [OF x] obtain n where
        cx: "truthy c" "isinstance_list c" "py_len c = Inr (Suc n)" "py_item_idx c 0 = Inr x"
        by blast
      show ?thesis
      proof (cases "is_object x")
        case False
        with obj c x cx show ?thesis
          by (simp add: chain_defs dereferenced_def py_get_object py_get_non_object
              py_item_key_field)
      next
        case xobj: True
        show ?thesis
        proof (cases "field ''content'' x")
          case None
          with obj c x cx xobj show ?thesis
            by (simp add: chain_defs dereferenced_def first_part_text_def py_get_object
                py_item_key_field)
        next
          case (Some ct)
          note ct = Some
          show ?thesis
          proof (cases "truthy ct \<and> is_object ct")
            case False
            with obj c x cx xobj ct show ?thesis
              by (cases ct)
                (auto simp add: chain_defs dereferenced_def first_part_text_def py_get_object
                  py_get_non_object py_item_key_field)
          next
            case True
            then have ctt: "truthy ct" and ctobj: "is_object ct" by simp_all
            show ?thesis
            proof (cases "Option.bind (field ''parts'' ct) first_item")
              case None
              with obj c x cx xobj ct ctt ctobj show ?thesis
                by (auto simp add: chain_defs dereferenced_def first_part_text_def py_get_object
                    py_item_key_field dest: first_item_NoneD
                    split: sum.splits option.splits Option.bind_splits)
            next
              case (Some p)
              then obtain ps where ps: "field ''parts'' ct = Some ps" "first_item ps = Some p"
                by (auto simp add: bind_eq_Some_conv)
              from first_item_SomeD [OF ps(2)] obtain m where
                px: "truthy ps" "isinstance_list ps" "py_len ps = Inr (Suc m)"
                  "py_item_idx ps 0 = Inr p"
                by blast
              from obj c x cx xobj ct ctt ctobj ps px show ?thesis
                by (cases "is_object p")
                  (auto simp add: chain_defs dereferenced_def first_part_text_def py_get_object
                    py_get_non_object py_item_key_field split: option.splits)
            qed
          qed
        qed
      qed
    qed
  qed
qed

lemma find_non_object_None:
  "find (\<lambda>v. \<not> is_object v) vs = None \<longleftrightarrow> list_all is_object vs"
  by (induction vs) auto


text \<open>The text that line 76 reads, when the condition holds.\<close>

lemma response_text:
  assumes "first_part_text result = Some t"
  shows "and_then (part00 result) (\<lambda>p. py_item_key p ''text'') = Inr t"
    and "list_all is_object (dereferenced result)"
proof -
  from assms obtain c x ct ps p where
    "field ''candidates'' result = Some c" "first_item c = Some x"
    "field ''content'' x = Some ct" "field ''parts'' ct = Some ps" "first_item ps = Some p"
    "field ''text'' p = Some t"
    by (auto simp add: first_part_text_def bind_eq_Some_conv)
  then show "and_then (part00 result) (\<lambda>p. py_item_key p ''text'') = Inr t"
    and "list_all is_object (dereferenced result)"
    by (auto simp add: chain_defs dereferenced_def py_item_key_field
        dest!: first_item_SomeD dest: field_is_object)
qed

text \<open>The body of the \<^verbatim>\<open>try\<close>, once the service has answered with a decoded document.\<close>

lemma llm_try_decoded:
  assumes "http_post W full_api_url headers (payload word) = Inr r"
    and "\<not> (400 \<le> status_code r \<and> status_code r < 600)"
    and "json_result r = Decoded result"
  shows "llm_try W word =
           and_then (has_generated_text result)
             (\<lambda>found.
                if found then and_then (part00 result) (\<lambda>p. py_item_key p ''text'')
                else Inr (JStr (unexpected_format W result)))"
  using assms
  by (simp add: llm_try_def and_then_def Response_json_def raise_for_status_ok)

text \<open>A response of the expected shape: the generated text goes to the callback.\<close>

lemma llm_returns_text:
  assumes "http_post W full_api_url headers (payload word) = Inr r"
    and "\<not> (400 \<le> status_code r \<and> status_code r < 600)"
    and "json_result r = Decoded result"
    and "first_part_text result = Some t" and "truthy t"
  shows "get_llm_definition W word callback s = Inr (callback t s)"
  using response_text [OF assms(4)] assms(4,5)
  by (simp add: get_llm_definition_def llm_try_decoded [OF assms(1-3)]
      has_generated_text_eq find_non_object_None [THEN iffD2] and_then_def)


text \<open>
  A value that is dereferenced and is not an object: the \<^verbatim>\<open>AttributeError\<close> reaches the
  last \<^verbatim>\<open>except\<close> clause, whose message does not hold the response.
\<close>

lemma llm_non_object_is_unexpected_error:
  assumes "http_post W full_api_url headers (payload word) = Inr r"
    and "\<not> (400 \<le> status_code r \<and> status_code r < 600)"
    and "json_result r = Decoded result"
    and "find (\<lambda>v. \<not> is_object v) (dereferenced result) = Some v"
  shows "get_llm_definition W word callback s =
           Inr (callback (JStr (''An unexpected error occurred: '' @ quoted (type_name v)
                                @ '' object has no attribute '' @ quoted ''get'')) s)"
  using assms(4)
  by (simp add: get_llm_definition_def llm_try_decoded [OF assms(1-3)]
      has_generated_text_eq and_then_def no_attribute_get_def)














text \<open>
  C6 says that every decoded response in which a step of the chain is absent or of the
  wrong shape gives an error that holds the pretty-printed response. The program misses
  the case of a step that is not an object: for the response
  \<^verbatim>\<open>{"candidates": [{"content": "blocked"}]}\<close>, whose content is a string, the chain is
  broken, and the callback gets "An unexpected error occurred: 'str' object has no
  attribute 'get'", which does not hold the response.
\<close>

theorem llm_content_not_an_object:
  "first_part_text result_bad_content = None \<and>
   get_llm_definition (answering response_bad_content dump_bad_content) ''cat''
       update_llm_result app_idle
     = Inr (update_llm_result
              (JStr (''An unexpected error occurred: '' @ quoted ''str''
                     @ '' object has no attribute '' @ quoted ''get'')) app_idle) \<and>
   \<not> sublist (json_dumps (answering response_bad_content dump_bad_content) result_bad_content)
       (''An unexpected error occurred: '' @ quoted ''str''
        @ '' object has no attribute '' @ quoted ''get'')"
proof -
  have post: "http_post (answering response_bad_content dump_bad_content) full_api_url headers
                (payload ''cat'') = Inr response_bad_content"
    by (simp add: answering_def)
  have ok: "\<not> (400 \<le> status_code response_bad_content \<and> status_code response_bad_content < 600)"
    and doc: "json_result response_bad_content = Decoded result_bad_content"
    by (simp_all add: response_bad_content_def)
  have broken: "first_part_text result_bad_content = None"
    by (simp add: first_part_text_def result_bad_content_def)
  have found: "find (\<lambda>v. \<not> is_object v) (dereferenced result_bad_content) = Some (JStr ''blocked'')"
    by (simp add: dereferenced_def result_bad_content_def)
  have absent: "\<not> sublist dump_bad_content
       (''An unexpected error occurred: '' @ quoted ''str''
        @ '' object has no attribute '' @ quoted ''get'')"
    by (simp add: dump_bad_content_def quoted_def sublist_Cons_right)
  from llm_non_object_is_unexpected_error [OF post ok doc found] broken absent
  show ?thesis by (simp add: answering_def)
qed



text \<open>A response of the expected shape, evaluated.\<close>

lemma llm_answer:
  "get_llm_definition (answering response_answer []) ''cat'' update_llm_result app_idle
     = Inr (update_llm_result (JStr ''A small cat.'') app_idle)"
proof -
  have "first_part_text result_answer = Some (JStr ''A small cat.'')"
    by (simp add: first_part_text_def result_answer_def)
  then show ?thesis
    by (intro llm_returns_text [where r = response_answer and result = result_answer])
      (simp_all add: answering_def response_answer_def)
qed

section \<open>Properties of DictionaryApp\<close>

subsection \<open>search_word\<close>

lemma strip_blank: "\<forall>c \<in> set raw. py_isspace c \<Longrightarrow> strip raw = []"
  by (auto simp add: strip_def dest: set_dropWhileD)

text \<open>A word that is not blank is looked up, and a thread is started for it.\<close>

lemma search_word_looks_up:
  "strip (word_entry a) \<noteq> [] \<Longrightarrow>
   lookups (snd (search_word W a)) = lookups a @ [strip (word_entry a)]"
  by (simp add: search_word_def Let_def add_result_header_def split: sum.splits)

lemma search_word_starts_thread:
  "strip (word_entry a) \<noteq> [] \<Longrightarrow> get_free_dictionary_definition W (strip (word_entry a)) = Inr d \<Longrightarrow>
   threads (snd (search_word W a)) = threads a @ [strip (word_entry a)]"
  by (simp add: search_word_def Let_def add_result_header_def)

text \<open>
  C8. When the entry field holds only whitespace (or nothing), \<^verbatim>\<open>search_word\<close> shows the
  warning and returns: no word is looked up in the dictionary service, no thread is
  started for the generation service, nothing is queued, and the results widget is as it
  was.
\<close>

theorem search_word_blank:
  "\<forall>c \<in> set (word_entry a). py_isspace c \<Longrightarrow>
   fst (search_word W a) = None \<and>
   warnings (snd (search_word W a)) =
     warnings a @ [(''Input Error'', ''Please enter a word to search.'')] \<and>
   lookups (snd (search_word W a)) = lookups a \<and>
   threads (snd (search_word W a)) = threads a \<and>
   after_queue (snd (search_word W a)) = after_queue a \<and>
   results_text (snd (search_word W a)) = results_text a"
  by (simp add: search_word_def strip_blank)

theorem search_word_blank_witness:
  "list_all py_isspace (word_entry app_blank) \<and>
   fst (search_word (answering response_404 []) app_blank) = None \<and>
   warnings (snd (search_word (answering response_404 []) app_blank)) =
     [(''Input Error'', ''Please enter a word to search.'')] \<and>
   lookups (snd (search_word (answering response_404 []) app_blank)) = [] \<and>
   threads (snd (search_word (answering response_404 []) app_blank)) = [] \<and>
   after_queue (snd (search_word (answering response_404 []) app_blank)) = [] \<and>
   results_text (snd (search_word (answering response_404 []) app_blank)) = widget_empty"
proof -
  have blank: "\<forall>c \<in> set (word_entry app_blank). py_isspace c"
    by (simp add: app_blank_def py_isspace_def)
  from search_word_blank [OF blank, of "answering response_404 []"] blank
  show ?thesis by (simp add: app_blank_def list_all_iff)
qed

text \<open>The end-to-end example of the specification: the state after a search.\<close>

lemma serendipity_lookup:
  "get_free_dictionary_definition (answering response_serendipity []) ''serendipity'' =
     Inr ''(noun) the occurrence of events by chance in a happy or beneficial way''"
  by (simp add: get_free_dictionary_definition_def dictionary_try_def and_then_def
      raise_for_status_def Response_json_def answering_def response_serendipity_def
      doc_serendipity_def entry_body_def meaning_body_def format_definition_def)

lemma strip_serendipity: "strip '' serendipity '' = ''serendipity''"
  by (simp add: strip_def py_isspace_def)

lemma search_word_serendipity:
  "search_word (answering response_serendipity []) app_serendipity = (None, app_waiting)"
  by (simp add: search_word_def app_serendipity_def strip_serendipity serendipity_lookup
      add_result_header_def tk_insert_def tk_delete_def tk_config_state_def widget_empty_def
      line_char_offset_def app_waiting_def pre_waiting_def newline_def Let_def placeholder_def)

subsection \<open>The search for the marker\<close>




subsection \<open>Lines and positions\<close>





subsection \<open>_insert_llm_result\<close>








text \<open>
  A result that is not a string (the service can send any value as the text): the
  placeholder line is deleted, \<^verbatim>\<open>result + "\n\n"\<close> raises, nothing is inserted and the widget
  stays enabled.
\<close>

lemma insert_llm_result_not_a_string:
  "insert_llm_result (JInt 5) app_waiting =
     (Some (TypeError (''unsupported operand type(s) for +: '' @ quoted ''int'' @ '' and ''
                       @ quoted ''str'')),
      app_waiting\<lparr>results_text := \<lparr>content = pre_waiting, state = Normal\<rparr>\<rparr>)"
  by code_simp

text \<open>The state in which a search leaves the display when a definition quotes the marker.\<close>

lemma search_word_collision:
  "search_word (answering response_collision []) app_fetching = (None, app_collision)"
  by (simp add: search_word_def app_fetching_def strip_def py_isspace_def
      get_free_dictionary_definition_def dictionary_try_def and_then_def
      raise_for_status_def Response_json_def answering_def response_collision_def
      doc_collision_def entry_body_def meaning_body_def format_definition_def
      add_result_header_def tk_insert_def tk_delete_def tk_config_state_def widget_empty_def
      line_char_offset_def app_collision_def pre_collision_def newline_def Let_def
      placeholder_def)




end
